theory Spec2Isabelle
  imports Complex_Main "HOL-Library.Word"
begin

unbundle bit_operations_syntax

section \<open>JavaScript values shared by the frontend models\<close>

text \<open>
  JSON values as the frontend handles them. A JavaScript number is a double; the model
  keeps the real number it denotes (no claim below depends on rounding).
\<close>

datatype json =
    JNull
  | JBool bool
  | JNum real
  | JStr string
  | JArr "json list"
  | JObj "(string \<times> json) list"

text \<open>The errors a promise of the frontend can reject with.\<close>

datatype js_error =
    Error string        \<comment> \<open>\<open>new Error(message)\<close>\<close>
  | SyntaxError         \<comment> \<open>\<open>res.json()\<close> on a body that is not JSON\<close>
  | TypeError string    \<comment> \<open>\<open>fetch\<close> itself failing (network)\<close>

text \<open>Decimal rendering of a non-negative integer, as a template literal does.\<close>

definition digit_char :: "nat \<Rightarrow> char" where
  "digit_char d = ''0123456789'' ! d"

function show_nat :: "nat \<Rightarrow> string" where
  "show_nat n = (if n < 10 then [digit_char n] else show_nat (n div 10) @ [digit_char (n mod 10)])"
  by pat_completeness auto
termination
  by (relation "measure id") auto

declare show_nat.simps [simp del]

section \<open>The kinematics store (src/unnamed/part\_000)\<close>

text \<open>
  \<^verbatim>\<open>interface KinematicsState { chain: string; result: Record<string, unknown> | null;
  loading: boolean; setChain; setResult; setLoading; reset }\<close>
  The three data fields are the state; the four functions are the actions below.
  \<open>null\<close> is \<open>None\<close>.
\<close>

record KinematicsState =
  chain :: string
  result :: "(string \<times> json) list option"
  loading :: bool

text \<open>
  The argument of zustand's \<open>set\<close>: an object holding some of the fields. \<open>set\<close> merges it
  into the current state (a shallow \<open>Object.assign\<close>): a field that is present replaces
  the old value, an absent one keeps it.
\<close>

record partial_state =
  chain_upd :: "string option"
  result_upd :: "(string \<times> json) list option option"
  loading_upd :: "bool option"

definition no_update :: partial_state where
  "no_update = \<lparr>chain_upd = None, result_upd = None, loading_upd = None\<rparr>"

definition set_state :: "partial_state \<Rightarrow> KinematicsState \<Rightarrow> KinematicsState" where
  "set_state p s =
     \<lparr>chain = (case chain_upd p of None \<Rightarrow> chain s | Some v \<Rightarrow> v),
      result = (case result_upd p of None \<Rightarrow> result s | Some v \<Rightarrow> v),
      loading = (case loading_upd p of None \<Rightarrow> loading s | Some v \<Rightarrow> v)\<rparr>"

definition initial_state :: KinematicsState where
  "initial_state = \<lparr>chain = ''human_arm'', result = None, loading = False\<rparr>"

definition setChain :: "string \<Rightarrow> KinematicsState \<Rightarrow> KinematicsState" where
  "setChain v = set_state (no_update\<lparr>chain_upd := Some v\<rparr>)"

definition setResult :: "(string \<times> json) list option \<Rightarrow> KinematicsState \<Rightarrow> KinematicsState" where
  "setResult v = set_state (no_update\<lparr>result_upd := Some v\<rparr>)"

definition setLoading :: "bool \<Rightarrow> KinematicsState \<Rightarrow> KinematicsState" where
  "setLoading v = set_state (no_update\<lparr>loading_upd := Some v\<rparr>)"

definition reset :: "KinematicsState \<Rightarrow> KinematicsState" where
  "reset = set_state \<lparr>chain_upd = Some ''human_arm'', result_upd = Some None,
                      loading_upd = Some False\<rparr>"

text \<open>A call of one of the store's four actions, and a run of calls from the initial state.\<close>

datatype store_action =
    SetChain string
  | SetResult "(string \<times> json) list option"
  | SetLoading bool
  | Reset

fun dispatch :: "store_action \<Rightarrow> KinematicsState \<Rightarrow> KinematicsState" where
  "dispatch (SetChain v) s = setChain v s"
| "dispatch (SetResult v) s = setResult v s"
| "dispatch (SetLoading v) s = setLoading v s"
| "dispatch Reset s = reset s"

definition run_store :: "store_action list \<Rightarrow> KinematicsState" where
  "run_store acts = foldl (\<lambda>s a. dispatch a s) initial_state acts"

section \<open>The API client (src/frontend/lib/api/client.ts)\<close>

text \<open>
  \<^verbatim>\<open>const API_URL = process.env.NEXT_PUBLIC_API_URL || 'http://localhost:8080';\<close>
  The environment variable may be unset (\<open>None\<close>); \<open>||\<close> also replaces the empty string.
\<close>

definition API_URL :: "string option \<Rightarrow> string" where
  "API_URL env_var =
     (case env_var of None \<Rightarrow> ''http://localhost:8080''
      | Some u \<Rightarrow> if u = [] then ''http://localhost:8080'' else u)"

text \<open>The fields of \<open>RequestInit\<close> the client uses. An absent field is \<open>None\<close>.\<close>

record RequestInit =
  init_method :: "string option"
  init_body :: "string option"
  init_headers :: "(string \<times> string) list"

text \<open>
  A response as \<open>request\<close> reads it: the status, and the outcome of \<open>res.json()\<close>
  (\<open>None\<close> when the body is not JSON). \<open>res.ok\<close> is the Fetch API's derived flag:
  the status is in the range 200 to 299.
\<close>

record Response =
  status :: nat
  body_json :: "json option"

definition ok :: "Response \<Rightarrow> bool" where
  "ok res = (200 \<le> status res \<and> status res \<le> 299)"

definition res_json :: "Response \<Rightarrow> js_error + json" where
  "res_json res = (case body_json res of None \<Rightarrow> Inl SyntaxError | Some j \<Rightarrow> Inr j)"

text \<open>
  The world the client runs in: the environment variable, \<open>fetch\<close> (which answers a URL
  and an init object with a response, or rejects) and \<open>JSON.stringify\<close>.
\<close>

record client_env =
  NEXT_PUBLIC_API_URL :: "string option"
  fetch :: "string \<Rightarrow> RequestInit \<Rightarrow> js_error + Response"
  JSON_stringify :: "json \<Rightarrow> string"

text \<open>
  Object spread of headers: the keys of the second object override those of the first.
\<close>

fun spread :: "(string \<times> string) list \<Rightarrow> (string \<times> string) list \<Rightarrow> (string \<times> string) list" where
  "spread base [] = base"
| "spread base ((k, v) # rest) =
     spread (if k \<in> set (map fst base)
             then map (\<lambda>(k', v'). if k' = k then (k', v) else (k', v')) base
             else base @ [(k, v)]) rest"

text \<open>
  The second argument of \<open>fetch\<close>:
  \<^verbatim>\<open>{ ...options, headers: { 'Content-Type': 'application/json', ...options?.headers } }\<close>
\<close>

definition fetch_init :: "RequestInit option \<Rightarrow> RequestInit" where
  "fetch_init options =
     (case options of
        None \<Rightarrow> \<lparr>init_method = None, init_body = None,
                 init_headers = [(''Content-Type'', ''application/json'')]\<rparr>
      | Some opts \<Rightarrow> opts\<lparr>init_headers :=
                 spread [(''Content-Type'', ''application/json'')] (init_headers opts)\<rparr>)"

text \<open>The method \<open>fetch\<close> sends: the init's \<open>method\<close>, and GET when there is none.\<close>

definition http_method :: "RequestInit \<Rightarrow> string" where
  "http_method init = (case init_method init of None \<Rightarrow> ''GET'' | Some m \<Rightarrow> m)"

text \<open>
  \<^verbatim>\<open>async function request<T>(path, options) {
    const res = await fetch(`${API_URL}${path}`, {...});
    if (!res.ok) throw new Error(`API error: ${res.status}`);
    return res.json(); }\<close>
\<close>

definition request :: "client_env \<Rightarrow> string \<Rightarrow> RequestInit option \<Rightarrow> js_error + json" where
  "request env path options =
     (case fetch env (API_URL (NEXT_PUBLIC_API_URL env) @ path) (fetch_init options) of
        Inl e \<Rightarrow> Inl e
      | Inr res \<Rightarrow>
          if \<not> ok res then Inl (Error (''API error: '' @ show_nat (status res)))
          else res_json res)"

text \<open>The bodies of the four POST operations, and their JSON objects.\<close>

record solve_ik_body =
  target_position :: "real list"
  joint_count :: "real option"

record solve_fk_body =
  joint_angles :: "real list"
  link_lengths :: "real list option"

record motion_sample =
  timestamp_ms :: int
  position :: "real list"

record compress_intent_body =
  samples :: "motion_sample list"
  sample_rate_hz :: "real option"

record optimize_trajectory_body =
  waypoints :: "real list list"
  max_velocity :: "real option"

definition num_array :: "real list \<Rightarrow> json" where
  "num_array xs = JArr (map JNum xs)"

definition optional_field :: "string \<Rightarrow> ('a \<Rightarrow> json) \<Rightarrow> 'a option \<Rightarrow> (string \<times> json) list" where
  "optional_field k f v = (case v of None \<Rightarrow> [] | Some x \<Rightarrow> [(k, f x)])"

definition solve_ik_json :: "solve_ik_body \<Rightarrow> json" where
  "solve_ik_json b =
     JObj ((''target_position'', num_array (target_position b))
           # optional_field ''joint_count'' JNum (joint_count b))"

definition solve_fk_json :: "solve_fk_body \<Rightarrow> json" where
  "solve_fk_json b =
     JObj ((''joint_angles'', num_array (joint_angles b))
           # optional_field ''link_lengths'' num_array (link_lengths b))"

definition sample_json :: "motion_sample \<Rightarrow> json" where
  "sample_json s =
     JObj [(''timestamp_ms'', JNum (of_int (timestamp_ms s))),
           (''position'', num_array (position s))]"

definition compress_intent_json :: "compress_intent_body \<Rightarrow> json" where
  "compress_intent_json b =
     JObj ((''samples'', JArr (map sample_json (samples b)))
           # optional_field ''sample_rate_hz'' JNum (sample_rate_hz b))"

definition optimize_trajectory_json :: "optimize_trajectory_body \<Rightarrow> json" where
  "optimize_trajectory_json b =
     JObj ((''waypoints'', JArr (map num_array (waypoints b)))
           # optional_field ''max_velocity'' JNum (max_velocity b))"

text \<open>
  The \<open>api\<close> object. Each operation is a call of \<open>request\<close>; \<open>api_call\<close> gives the path
  and the options it passes, \<open>api\<close> makes the call.
\<close>

datatype api_op =
    health
  | solveIk solve_ik_body
  | solveFk solve_fk_body
  | compressIntent compress_intent_body
  | optimizeTrajectory optimize_trajectory_body
  | chains
  | stats

definition post :: "string \<Rightarrow> RequestInit option" where
  "post b = Some \<lparr>init_method = Some ''POST'', init_body = Some b, init_headers = []\<rparr>"

fun api_call :: "client_env \<Rightarrow> api_op \<Rightarrow> string \<times> RequestInit option" where
  "api_call env health = (''/health'', None)"
| "api_call env (solveIk b) =
     (''/api/v1/kinematics/solve-ik'', post (JSON_stringify env (solve_ik_json b)))"
| "api_call env (solveFk b) =
     (''/api/v1/kinematics/solve-fk'', post (JSON_stringify env (solve_fk_json b)))"
| "api_call env (compressIntent b) =
     (''/api/v1/kinematics/compress-intent'', post (JSON_stringify env (compress_intent_json b)))"
| "api_call env (optimizeTrajectory b) =
     (''/api/v1/kinematics/optimize-trajectory'',
      post (JSON_stringify env (optimize_trajectory_json b)))"
| "api_call env chains = (''/api/v1/kinematics/chains'', None)"
| "api_call env stats = (''/api/v1/kinematics/stats'', None)"

definition api :: "client_env \<Rightarrow> api_op \<Rightarrow> js_error + json" where
  "api env op = (case api_call env op of (path, options) \<Rightarrow> request env path options)"

text \<open>The method and the path an operation puts on the wire.\<close>

definition wire :: "client_env \<Rightarrow> api_op \<Rightarrow> string \<times> string" where
  "wire env op =
     (case api_call env op of (path, options) \<Rightarrow> (http_method (fetch_init options), path))"

text \<open>
  Modelled from the spec: the endpoint table of the core engine's HTTP dispatcher (the
  engine, services/core-engine, is not among the sources), method and path of each row in
  the order of the spec's table.
\<close>

definition endpoint_table :: "(string \<times> string) list" where
  "endpoint_table =
     [(''POST'', ''/api/v1/kinematics/solve-ik''),
      (''POST'', ''/api/v1/kinematics/solve-fk''),
      (''POST'', ''/api/v1/kinematics/compress-intent''),
      (''POST'', ''/api/v1/kinematics/optimize-trajectory''),
      (''GET'', ''/api/v1/kinematics/chains''),
      (''GET'', ''/api/v1/kinematics/stats''),
      (''GET'', ''/health'')]"

text \<open>A network that answers every request with the same response, and three responses.\<close>

definition answering :: "Response \<Rightarrow> client_env" where
  "answering res =
     \<lparr>NEXT_PUBLIC_API_URL = None, fetch = (\<lambda>url init. Inr res), JSON_stringify = (\<lambda>j. [])\<rparr>"

definition bad_request_response :: Response where
  "bad_request_response =
     \<lparr>status = 400, body_json = Some (JObj [(''error'', JStr ''joint_count out of range'')])\<rparr>"

definition chains_response :: Response where
  "chains_response = \<lparr>status = 200, body_json = Some (JArr [])\<rparr>"

definition no_content_response :: Response where
  "no_content_response = \<lparr>status = 204, body_json = None\<rparr>"

section \<open>The console page (src/frontend/app/dashboard/console/page.tsx)\<close>

text \<open>
  \<open>doFetch(path, body)\<close> posts the body with the two headers of the page. The model gives
  the URL and the init object of its \<open>fetch\<close> call; what the page then does with the
  answer (its \<open>setResult\<close> and \<open>setLoading\<close>) is not part of any property below.
\<close>

definition doFetch_call :: "client_env \<Rightarrow> string \<Rightarrow> json \<Rightarrow> string \<times> RequestInit" where
  "doFetch_call env path body =
     (API_URL (NEXT_PUBLIC_API_URL env) @ path,
      \<lparr>init_method = Some ''POST'', init_body = Some (JSON_stringify env body),
       init_headers = [(''Content-Type'', ''application/json''), (''X-API-Key'', ''demo'')]\<rparr>)"

text \<open>
  The intent tab's button:
  \<^verbatim>\<open>const samples = Array.from({ length: 100 }, (_, i) => ({
    timestamp_ms: i * 10,
    position: [Math.sin(i * 0.1) * 0.5, Math.cos(i * 0.1) * 0.3, i * 0.005] }));
  doFetch('/api/v1/kinematics/compress-intent', { samples, sample_rate_hz: 100 });\<close>
  The positions are doubles; the model keeps the real numbers they approximate.
\<close>

definition generated_sample :: "nat \<Rightarrow> motion_sample" where
  "generated_sample i =
     \<lparr>timestamp_ms = int i * 10,
      position = [sin (real i * 0.1) * 0.5, cos (real i * 0.1) * 0.3, real i * 0.005]\<rparr>"

definition generated_samples :: "motion_sample list" where
  "generated_samples = map generated_sample [0..<100]"

definition generated_request :: compress_intent_body where
  "generated_request = \<lparr>samples = generated_samples, sample_rate_hz = Some 100\<rparr>"

definition intent_click :: "client_env \<Rightarrow> string \<times> RequestInit" where
  "intent_click env =
     doFetch_call env ''/api/v1/kinematics/compress-intent'' (compress_intent_json generated_request)"

text \<open>
  Modelled from the spec: the validity check of the core engine's compress-intent
  operation (the engine is not among the sources). The spec rejects empty samples,
  non-monotonic timestamps (a stream's timestamps must be non-decreasing) and
  \<open>sample_rate_hz \<le> 0\<close>; a request is accepted when none of the three holds.
\<close>

definition compress_intent_accepts :: "compress_intent_body \<Rightarrow> bool" where
  "compress_intent_accepts b =
     (samples b \<noteq> [] \<and> sorted (map timestamp_ms (samples b))
      \<and> (case sample_rate_hz b of None \<Rightarrow> True | Some r \<Rightarrow> 0 < r))"

section \<open>The chain presets (src/README.md, src/frontend/app/dashboard/console/page.tsx)\<close>

text \<open>
  A preset as the console page reads it (\<open>c.id\<close>, \<open>c.name\<close>, \<open>c.description\<close>, \<open>c.dof\<close>,
  \<open>c.joint_type\<close>).
\<close>

record chain_preset =
  preset_id :: string
  preset_name :: string
  dof :: nat
  joint_type :: string
  description :: string

text \<open>
  Modelled from the spec: the preset registry of the core engine and its GET chains
  operation (the engine is not among the sources). The rows are those of the README's
  chain table, in its order, which is the spec's declaration order; the names are those of
  the landing page's list.
\<close>

definition preset_registry :: "chain_preset list" where
  "preset_registry =
     [\<lparr>preset_id = ''human_arm'', preset_name = ''Human Arm'', dof = 7,
       joint_type = ''revolute'', description = ''Shoulder(3) + elbow(1) + wrist(3)''\<rparr>,
      \<lparr>preset_id = ''human_leg'', preset_name = ''Human Leg'', dof = 6,
       joint_type = ''revolute'', description = ''Hip(3) + knee(1) + ankle(2)''\<rparr>,
      \<lparr>preset_id = ''robotic_arm_6dof'', preset_name = ''Robotic Arm'', dof = 6,
       joint_type = ''revolute'', description = ''Standard industrial manipulator''\<rparr>,
      \<lparr>preset_id = ''delta_robot'', preset_name = ''Delta Robot'', dof = 3,
       joint_type = ''prismatic'', description = ''High-speed pick-and-place''\<rparr>,
      \<lparr>preset_id = ''scara'', preset_name = ''SCARA'', dof = 4,
       joint_type = ''revolute+prismatic'', description = ''Selective compliance assembly''\<rparr>]"

definition get_chains :: "chain_preset list" where
  "get_chains = preset_registry"

text \<open>The landing page's list: \<^verbatim>\<open>const chains = ['Human Arm (7-DOF)', ...]\<close>.\<close>

definition landing_chains :: "string list" where
  "landing_chains =
     [''Human Arm (7-DOF)'', ''Human Leg (6-DOF)'', ''Robotic Arm (6-DOF)'',
      ''Delta Robot (3-DOF)'', ''SCARA (4-DOF)'']"

definition chain_label :: "chain_preset \<Rightarrow> string" where
  "chain_label p = preset_name p @ '' ('' @ show_nat (dof p) @ ''-DOF)''"

section \<open>The 8-byte intent record\<close>

text \<open>
  Modelled from the spec: the packing of an intent record by the core engine's intent
  compressor, and its inverse (the engine is not among the sources). Byte 0 is the class
  tag, bytes 1 to 3 are the direction's components as signed 8-bit values (scale 127),
  bytes 4 to 7 are the magnitude as a little-endian float32.

  The magnitude is kept as the 32 bits of its float32; how a longer float is rounded to
  them is IEEE arithmetic and is not modelled. The direction's components are the real
  numbers the floats denote. The spec does not say how a scaled component becomes an
  integer, so the rounding is a parameter: to the nearest integer, or towards zero.
\<close>

datatype intent_kind = Idle | Grasp | Release | Traverse | Reach

fun class_tag :: "intent_kind \<Rightarrow> 8 word" where
  "class_tag Idle = 0"
| "class_tag Grasp = 1"
| "class_tag Release = 2"
| "class_tag Traverse = 3"
| "class_tag Reach = 4"

definition tag_class :: "8 word \<Rightarrow> intent_kind option" where
  "tag_class b =
     (if b = 0 then Some Idle else if b = 1 then Some Grasp else if b = 2 then Some Release
      else if b = 3 then Some Traverse else if b = 4 then Some Reach else None)"

record intent_record =
  intent_class :: intent_kind
  intent_direction :: "real \<times> real \<times> real"
  intent_magnitude :: "32 word"

datatype rounding = ToNearest | TowardZero

fun round_int :: "rounding \<Rightarrow> real \<Rightarrow> int" where
  "round_int ToNearest x = (if x < 0 then - \<lfloor>- x + 1 / 2\<rfloor> else \<lfloor>x + 1 / 2\<rfloor>)"
| "round_int TowardZero x = (if x < 0 then - \<lfloor>- x\<rfloor> else \<lfloor>x\<rfloor>)"

definition quantize :: "rounding \<Rightarrow> real \<Rightarrow> 8 word" where
  "quantize rnd x = word_of_int (round_int rnd (x * 127))"

definition dequantize :: "8 word \<Rightarrow> real" where
  "dequantize b = real_of_int (sint b) / 127"

definition to_le_bytes :: "32 word \<Rightarrow> 8 word list" where
  "to_le_bytes w = [ucast w, ucast (drop_bit 8 w), ucast (drop_bit 16 w), ucast (drop_bit 24 w)]"

definition from_le_bytes :: "8 word \<Rightarrow> 8 word \<Rightarrow> 8 word \<Rightarrow> 8 word \<Rightarrow> 32 word" where
  "from_le_bytes b0 b1 b2 b3 =
     ucast b0 OR push_bit 8 (ucast b1) OR push_bit 16 (ucast b2) OR push_bit 24 (ucast b3)"

definition encode_intent :: "rounding \<Rightarrow> intent_record \<Rightarrow> 8 word list" where
  "encode_intent rnd r =
     (case intent_direction r of (x, y, z) \<Rightarrow>
        [class_tag (intent_class r), quantize rnd x, quantize rnd y, quantize rnd z]
        @ to_le_bytes (intent_magnitude r))"

fun decode_intent :: "8 word list \<Rightarrow> intent_record option" where
  "decode_intent [t, bx, by, bz, m0, m1, m2, m3] =
     (case tag_class t of
        None \<Rightarrow> None
      | Some c \<Rightarrow> Some \<lparr>intent_class = c,
                        intent_direction = (dequantize bx, dequantize by, dequantize bz),
                        intent_magnitude = from_le_bytes m0 m1 m2 m3\<rparr>)"
| "decode_intent bs = None"

text \<open>The squared length of a direction, and two directions agreeing in every component.\<close>

definition norm_sq :: "real \<times> real \<times> real \<Rightarrow> real" where
  "norm_sq d = (case d of (x, y, z) \<Rightarrow> x\<^sup>2 + y\<^sup>2 + z\<^sup>2)"

definition close_to :: "real \<Rightarrow> real \<times> real \<times> real \<Rightarrow> real \<times> real \<times> real \<Rightarrow> bool" where
  "close_to eps d' d =
     (case d' of (x', y', z') \<Rightarrow> case d of (x, y, z) \<Rightarrow>
        \<bar>x' - x\<bar> \<le> eps \<and> \<bar>y' - y\<bar> \<le> eps \<and> \<bar>z' - z\<bar> \<le> eps)"

text \<open>A reach along (0.6, -0.8, 0) of magnitude 0.1 (float32 bits 3DCCCCCD).\<close>

definition example_intent :: intent_record where
  "example_intent =
     \<lparr>intent_class = Reach, intent_direction = (3 / 5, - 4 / 5, 0), intent_magnitude = 0x3DCCCCCD\<rparr>"

section \<open>The compress-intent operation\<close>

text \<open>
  Modelled from the spec: the core engine's compress-intent operation (the engine is not
  among the sources). It rejects a request that its validity check does not accept, and
  answers any other with the intent of the window, which packs into 8 bytes, and with the
  sizes: \<open>compressed_bytes\<close>, \<open>original_samples\<close> and \<open>compression_ratio\<close>, the
  original byte size of the samples divided by 8, where one sample has 32 bytes
  (timestamp 8 + position 24).

  The classification of the window (statistics over floats), the packing's rounding, the
  fresh intent id and the elapsed time are parameters.
\<close>

record compress_intent_response =
  intent_id :: string
  compressed_bytes :: nat
  original_samples :: nat
  compression_ratio :: real
  intent_type :: intent_kind
  direction :: "real \<times> real \<times> real"
  magnitude :: "32 word"
  elapsed_us :: nat

datatype compress_answer = CompressError string | CompressResult compress_intent_response

record compressor =
  classify :: "motion_sample list \<Rightarrow> intent_record"
  packing :: rounding
  fresh_intent_id :: string
  elapsed :: nat

definition sample_byte_size :: nat where
  "sample_byte_size = 8 + 24"

definition original_sample_byte_size :: "motion_sample list \<Rightarrow> nat" where
  "original_sample_byte_size ss = sample_byte_size * length ss"

definition compress_intent :: "compressor \<Rightarrow> compress_intent_body \<Rightarrow> nat \<times> compress_answer" where
  "compress_intent c b =
     (if \<not> compress_intent_accepts b then (400, CompressError ''invalid request'')
      else (200, CompressResult
             \<lparr>intent_id = fresh_intent_id c,
              compressed_bytes = length (encode_intent (packing c) (classify c (samples b))),
              original_samples = length (samples b),
              compression_ratio = real (original_sample_byte_size (samples b)) / 8,
              intent_type = intent_class (classify c (samples b)),
              direction = intent_direction (classify c (samples b)),
              magnitude = intent_magnitude (classify c (samples b)),
              elapsed_us = elapsed c\<rparr>))"

text \<open>
  The README's example request (two samples, 0.1 m along x), and a compressor that
  classifies every window as that reach.
\<close>

definition readme_request :: compress_intent_body where
  "readme_request =
     \<lparr>samples = [\<lparr>timestamp_ms = 0, position = [0, 0, 0]\<rparr>,
                 \<lparr>timestamp_ms = 100, position = [1 / 10, 0, 0]\<rparr>],
      sample_rate_hz = Some 1000\<rparr>"

definition reach_x :: intent_record where
  "reach_x = \<lparr>intent_class = Reach, intent_direction = (1, 0, 0), intent_magnitude = 0x3DCCCCCD\<rparr>"

definition example_compressor :: compressor where
  "example_compressor =
     \<lparr>classify = (\<lambda>ss. reach_x), packing = ToNearest, fresh_intent_id = ''i1'', elapsed = 12\<rparr>"

section \<open>The domain tables (src/database/migrations/006\_domain.sql)\<close>

text \<open>
  The migration is data definition: two \<open>create table if not exists\<close> and three
  \<open>create index\<close>. The model has the statements as values, column by column, and a small
  model of the database that runs them and then enforces what the columns declare.
\<close>

datatype sql_type = Uuid | Text | Integer | Jsonb | DoublePrecision | Timestamptz

datatype sql_value =
    Null
  | VUuid string
  | VText string
  | VInt int
  | VJson string
  | VDouble real
  | VTime nat

datatype default_expr =
    Literal sql_value
  | GenRandomUuid      \<comment> \<open>\<open>gen_random_uuid()\<close>\<close>
  | Now                \<comment> \<open>\<open>now()\<close>\<close>

datatype on_delete = Cascade | NoAction

record column =
  col_name :: string
  col_type :: sql_type
  col_not_null :: bool
  col_default :: "default_expr option"
  col_check_in :: "string list option"   \<comment> \<open>\<open>check (c in (...))\<close>\<close>
  col_primary_key :: bool
  col_references :: "(string \<times> string \<times> on_delete) option"

record table_def =
  table_name :: string
  table_columns :: "column list"

definition col :: "string \<Rightarrow> sql_type \<Rightarrow> column" where
  "col n ty =
     \<lparr>col_name = n, col_type = ty, col_not_null = False, col_default = None,
      col_check_in = None, col_primary_key = False, col_references = None\<rparr>"

definition kinematic_chains :: table_def where
  "kinematic_chains =
     \<lparr>table_name = ''public.kinematic_chains'',
      table_columns =
        [(col ''id'' Uuid)\<lparr>col_primary_key := True, col_default := Some GenRandomUuid\<rparr>,
         (col ''user_id'' Uuid)\<lparr>col_references := Some (''auth.users'', ''id'', Cascade)\<rparr>,
         (col ''name'' Text)\<lparr>col_not_null := True\<rparr>,
         (col ''chain_type'' Text)\<lparr>col_not_null := True,
            col_default := Some (Literal (VText ''serial'')),
            col_check_in := Some [''serial'', ''parallel'', ''tree'', ''closed_loop'']\<rparr>,
         (col ''joint_count'' Integer)\<lparr>col_not_null := True\<rparr>,
         (col ''dof'' Integer)\<lparr>col_not_null := True\<rparr>,
         (col ''joints'' Jsonb)\<lparr>col_not_null := True,
            col_default := Some (Literal (VJson ''[]''))\<rparr>,
         (col ''end_effector_count'' Integer)\<lparr>col_default := Some (Literal (VInt 1))\<rparr>,
         col ''workspace_volume'' DoublePrecision,
         (col ''created_at'' Timestamptz)\<lparr>col_default := Some Now\<rparr>]\<rparr>"

definition ik_solver_jobs :: table_def where
  "ik_solver_jobs =
     \<lparr>table_name = ''public.ik_solver_jobs'',
      table_columns =
        [(col ''id'' Uuid)\<lparr>col_primary_key := True, col_default := Some GenRandomUuid\<rparr>,
         (col ''user_id'' Uuid)\<lparr>col_references := Some (''auth.users'', ''id'', Cascade)\<rparr>,
         (col ''chain_id'' Uuid)\<lparr>col_references :=
            Some (''public.kinematic_chains'', ''id'', Cascade)\<rparr>,
         (col ''solver_type'' Text)\<lparr>col_not_null := True,
            col_default := Some (Literal (VText ''ccd'')),
            col_check_in := Some [''ccd'', ''fabrik'', ''jacobian'', ''analytical'', ''hybrid'']\<rparr>,
         (col ''target_position'' Jsonb)\<lparr>col_not_null := True\<rparr>,
         col ''target_orientation'' Jsonb,
         (col ''status'' Text)\<lparr>col_default := Some (Literal (VText ''pending''))\<rparr>,
         col ''iterations'' Integer,
         col ''residual_error'' DoublePrecision,
         col ''solution'' Jsonb,
         col ''solve_time_ms'' DoublePrecision,
         (col ''created_at'' Timestamptz)\<lparr>col_default := Some Now\<rparr>]\<rparr>"

datatype statement =
    CreateTableIfNotExists table_def
  | CreateIndex string string string   \<comment> \<open>index name, table, column\<close>

definition migration_006 :: "statement list" where
  "migration_006 =
     [CreateTableIfNotExists kinematic_chains,
      CreateTableIfNotExists ik_solver_jobs,
      CreateIndex ''idx_kinematic_chains_user'' ''public.kinematic_chains'' ''user_id'',
      CreateIndex ''idx_ik_solver_jobs_chain'' ''public.ik_solver_jobs'' ''chain_id'',
      CreateIndex ''idx_ik_solver_jobs_user'' ''public.ik_solver_jobs'' ''user_id'']"

subsection \<open>The database that runs the migration\<close>

text \<open>
  A row gives a value to every column of its table. A database has its table definitions,
  its indexes and the rows of each table.
\<close>

type_synonym row = "(string \<times> sql_value) list"

record database =
  catalog :: "table_def list"
  indexes :: "(string \<times> string \<times> string) list"
  contents :: "string \<Rightarrow> row list"

datatype sql_error =
    UndefinedTable string
  | UndefinedColumn string
  | DuplicateRelation string
  | DatatypeMismatch string
  | NotNullViolation string
  | CheckViolation string
  | UniqueViolation string
  | ForeignKeyViolation string

definition lookup_table :: "database \<Rightarrow> string \<Rightarrow> table_def option" where
  "lookup_table db n = find (\<lambda>t. table_name t = n) (catalog db)"

definition column_names :: "table_def \<Rightarrow> string list" where
  "column_names t = map col_name (table_columns t)"

definition foreign_tables :: "table_def \<Rightarrow> string list" where
  "foreign_tables t =
     concat (map (\<lambda>c. case col_references c of None \<Rightarrow> [] | Some (tn, cn, a) \<Rightarrow> [tn])
                 (table_columns t))"

fun exec_statement :: "statement \<Rightarrow> database \<Rightarrow> sql_error + database" where
  "exec_statement (CreateTableIfNotExists t) db =
     (if lookup_table db (table_name t) \<noteq> None then Inr db
      else case find (\<lambda>tn. lookup_table db tn = None \<and> tn \<noteq> table_name t) (foreign_tables t) of
             Some tn \<Rightarrow> Inl (UndefinedTable tn)
           | None \<Rightarrow> Inr (db\<lparr>catalog := catalog db @ [t],
                               contents := (contents db)(table_name t := [])\<rparr>))"
| "exec_statement (CreateIndex i tn cn) db =
     (if i \<in> set (map fst (indexes db)) then Inl (DuplicateRelation i)
      else case lookup_table db tn of
             None \<Rightarrow> Inl (UndefinedTable tn)
           | Some t \<Rightarrow> if cn \<in> set (column_names t)
                       then Inr (db\<lparr>indexes := indexes db @ [(i, tn, cn)]\<rparr>)
                       else Inl (UndefinedColumn cn))"

fun run_statements :: "statement list \<Rightarrow> database \<Rightarrow> sql_error + database" where
  "run_statements [] db = Inr db"
| "run_statements (s # ss) db =
     (case exec_statement s db of Inl e \<Rightarrow> Inl e | Inr db' \<Rightarrow> run_statements ss db')"

text \<open>
  The project's database before the migration: of the tables the migration refers to, only
  \<open>auth.users\<close> exists (it belongs to the hosting platform), with whatever users it has.
\<close>

definition auth_users :: table_def where
  "auth_users =
     \<lparr>table_name = ''auth.users'',
      table_columns = [(col ''id'' Uuid)\<lparr>col_primary_key := True\<rparr>]\<rparr>"

definition project_db :: "row list \<Rightarrow> database" where
  "project_db users =
     \<lparr>catalog = [auth_users], indexes = [], contents = (\<lambda>n. [])(''auth.users'' := users)\<rparr>"

subsection \<open>Rows under the declared constraints\<close>

text \<open>
  What the database supplies when a default is evaluated: a fresh uuid and the time.
\<close>

record generator =
  fresh_uuid :: string
  current_time :: nat

fun eval_default :: "generator \<Rightarrow> default_expr \<Rightarrow> sql_value" where
  "eval_default g (Literal v) = v"
| "eval_default g GenRandomUuid = VUuid (fresh_uuid g)"
| "eval_default g Now = VTime (current_time g)"

text \<open>
  The value an insert stores in a column: the given one (an explicit \<open>null\<close> included),
  else the default, else \<open>null\<close>.
\<close>

definition fill :: "generator \<Rightarrow> row \<Rightarrow> column \<Rightarrow> sql_value" where
  "fill g given c =
     (case map_of given (col_name c) of
        Some v \<Rightarrow> v
      | None \<Rightarrow> (case col_default c of None \<Rightarrow> Null | Some d \<Rightarrow> eval_default g d))"

definition build_row :: "generator \<Rightarrow> table_def \<Rightarrow> row \<Rightarrow> row" where
  "build_row g t given = map (\<lambda>c. (col_name c, fill g given c)) (table_columns t)"

definition cell :: "row \<Rightarrow> string \<Rightarrow> sql_value" where
  "cell r n = (case map_of r n of None \<Rightarrow> Null | Some v \<Rightarrow> v)"

fun has_type :: "sql_type \<Rightarrow> sql_value \<Rightarrow> bool" where
  "has_type ty Null = True"
| "has_type ty (VUuid u) = (ty = Uuid)"
| "has_type ty (VText s) = (ty = Text)"
| "has_type ty (VInt i) = (ty = Integer)"
| "has_type ty (VJson j) = (ty = Jsonb)"
| "has_type ty (VDouble d) = (ty = DoublePrecision)"
| "has_type ty (VTime n) = (ty = Timestamptz)"

text \<open>
  The constraints of one column on its value. A primary key is not null. A check is
  violated only when its condition is false: on \<open>null\<close> it is unknown, and passes.
\<close>

definition column_violation :: "column \<Rightarrow> sql_value \<Rightarrow> sql_error option" where
  "column_violation c v =
     (if \<not> has_type (col_type c) v then Some (DatatypeMismatch (col_name c))
      else if (col_not_null c \<or> col_primary_key c) \<and> v = Null
        then Some (NotNullViolation (col_name c))
      else case col_check_in c of
             None \<Rightarrow> None
           | Some allowed \<Rightarrow>
               if v = Null \<or> v \<in> set (map VText allowed) then None
               else Some (CheckViolation (col_name c)))"

fun row_violation :: "column list \<Rightarrow> row \<Rightarrow> sql_error option" where
  "row_violation [] r = None"
| "row_violation (c # cs) r =
     (case column_violation c (cell r (col_name c)) of
        Some e \<Rightarrow> Some e
      | None \<Rightarrow> row_violation cs r)"

definition key_of :: "table_def \<Rightarrow> row \<Rightarrow> sql_value list" where
  "key_of t r = map (\<lambda>c. cell r (col_name c)) (filter col_primary_key (table_columns t))"

definition reference_violation :: "database \<Rightarrow> table_def \<Rightarrow> row \<Rightarrow> bool" where
  "reference_violation db t r =
     list_ex (\<lambda>c. case col_references c of
                    None \<Rightarrow> False
                  | Some (tn, cn, a) \<Rightarrow>
                      cell r (col_name c) \<noteq> Null
                      \<and> cell r (col_name c) \<notin> set (map (\<lambda>r'. cell r' cn) (contents db tn)))
             (table_columns t)"

text \<open>
  The checks on a row that is to stand in table \<open>t\<close> beside the rows \<open>others\<close>.
\<close>

definition admit :: "database \<Rightarrow> table_def \<Rightarrow> row list \<Rightarrow> row \<Rightarrow> sql_error option" where
  "admit db t others r =
     (case row_violation (table_columns t) r of
        Some e \<Rightarrow> Some e
      | None \<Rightarrow>
          if key_of t r \<in> set (map (key_of t) others) then Some (UniqueViolation (table_name t))
          else if reference_violation db t r then Some (ForeignKeyViolation (table_name t))
          else None)"

text \<open>\<open>insert into n (columns of given) values (values of given)\<close>\<close>

definition insert_row :: "generator \<Rightarrow> string \<Rightarrow> row \<Rightarrow> database \<Rightarrow> sql_error + database" where
  "insert_row g n given db =
     (case lookup_table db n of
        None \<Rightarrow> Inl (UndefinedTable n)
      | Some t \<Rightarrow>
          (case find (\<lambda>k. k \<notin> set (column_names t)) (map fst given) of
             Some k \<Rightarrow> Inl (UndefinedColumn k)
           | None \<Rightarrow>
               (case admit db t (contents db n) (build_row g t given) of
                  Some e \<Rightarrow> Inl e
                | None \<Rightarrow> Inr (db\<lparr>contents :=
                             (contents db)(n := contents db n @ [build_row g t given])\<rparr>))))"

text \<open>
  \<open>update n set (given) where id = key\<close>. The assigned cells replace the old ones; the new
  row passes the same checks as an inserted one. (That an update of a key other rows refer
  to is refused is not modelled: the model admits every update the database admits.)
\<close>

definition assign :: "row \<Rightarrow> row \<Rightarrow> row" where
  "assign given r = map (\<lambda>(k, v). (k, case map_of given k of None \<Rightarrow> v | Some v' \<Rightarrow> v')) r"

fun update_each :: "database \<Rightarrow> table_def \<Rightarrow> sql_value \<Rightarrow> row \<Rightarrow> row list \<Rightarrow> row list
      \<Rightarrow> sql_error + row list" where
  "update_each db t key given kept [] = Inr kept"
| "update_each db t key given kept (r # rs) =
     (if cell r ''id'' = key then
        (case admit db t (kept @ rs) (assign given r) of
           Some e \<Rightarrow> Inl e
         | None \<Rightarrow> update_each db t key given (kept @ [assign given r]) rs)
      else update_each db t key given (kept @ [r]) rs)"

definition update_row :: "string \<Rightarrow> sql_value \<Rightarrow> row \<Rightarrow> database \<Rightarrow> sql_error + database" where
  "update_row n key given db =
     (case lookup_table db n of
        None \<Rightarrow> Inl (UndefinedTable n)
      | Some t \<Rightarrow>
          (case find (\<lambda>k. k \<notin> set (column_names t)) (map fst given) of
             Some k \<Rightarrow> Inl (UndefinedColumn k)
           | None \<Rightarrow>
               (case update_each db t key given [] (contents db n) of
                  Inl e \<Rightarrow> Inl e
                | Inr rows \<Rightarrow> Inr (db\<lparr>contents := (contents db)(n := rows)\<rparr>))))"

text \<open>
  \<open>delete from n where c in (vals)\<close>, with \<open>on delete cascade\<close>: the rows of other tables
  that refer to a deleted row go too, and so on. The first argument bounds the depth of the
  cascade; the number of tables is enough when the references have no cycle, as here.
\<close>

definition referrers :: "database \<Rightarrow> string \<Rightarrow> (string \<times> string \<times> string) list" where
  "referrers db n =
     concat (map (\<lambda>t. concat (map (\<lambda>c. case col_references c of
                                          None \<Rightarrow> []
                                        | Some (tn, cn, a) \<Rightarrow>
                                            if tn = n \<and> a = Cascade
                                            then [(table_name t, col_name c, cn)] else [])
                                   (table_columns t)))
                 (catalog db))"

fun delete_where :: "nat \<Rightarrow> string \<Rightarrow> string \<Rightarrow> sql_value list \<Rightarrow> database \<Rightarrow> database" where
  "delete_where 0 n c vals db = db"
| "delete_where (Suc depth) n c vals db =
     fold (\<lambda>(tn, cn, rc). delete_where depth tn cn
              (map (\<lambda>r. cell r rc) (filter (\<lambda>r. cell r c \<in> set vals) (contents db n))))
          (referrers db n)
          (db\<lparr>contents := (contents db)(n := filter (\<lambda>r. cell r c \<notin> set vals) (contents db n))\<rparr>)"

definition delete_row :: "string \<Rightarrow> sql_value \<Rightarrow> database \<Rightarrow> sql_error + database" where
  "delete_row n key db =
     (case lookup_table db n of
        None \<Rightarrow> Inl (UndefinedTable n)
      | Some t \<Rightarrow> Inr (delete_where (Suc (length (catalog db))) n ''id'' [key] db))"

text \<open>
  The statements a client sends after the migration. One that fails leaves the database as
  it was, and the next one runs.
\<close>

datatype dml =
    Insert generator string row
  | Update string sql_value row
  | Delete string sql_value

fun exec_dml :: "dml \<Rightarrow> database \<Rightarrow> sql_error + database" where
  "exec_dml (Insert g n given) db = insert_row g n given db"
| "exec_dml (Update n key given) db = update_row n key given db"
| "exec_dml (Delete n key) db = delete_row n key db"

definition apply_dml :: "database \<Rightarrow> dml \<Rightarrow> database" where
  "apply_dml db s = (case exec_dml s db of Inl e \<Rightarrow> db | Inr db' \<Rightarrow> db')"

definition run_dml :: "dml list \<Rightarrow> database \<Rightarrow> database" where
  "run_dml ss db = foldl apply_dml db ss"

text \<open>The database after the migration, or the one before it if a statement failed.\<close>

definition migrated :: "row list \<Rightarrow> database" where
  "migrated users =
     (case run_statements migration_006 (project_db users) of
        Inl e \<Rightarrow> project_db users
      | Inr db \<Rightarrow> db)"

definition solver_types :: "string list" where
  "solver_types = [''ccd'', ''fabrik'', ''jacobian'', ''analytical'', ''hybrid'']"

definition chain_types :: "string list" where
  "chain_types = [''serial'', ''parallel'', ''tree'', ''closed_loop'']"

text \<open>Every row of a list passes the column constraints of a table.\<close>

definition rows_ok :: "table_def \<Rightarrow> row list \<Rightarrow> bool" where
  "rows_ok t rs = list_all (\<lambda>r. row_violation (table_columns t) r = None) rs"

text \<open>
  The two tables are defined as the migration defines them, and their rows pass their
  columns' constraints.
\<close>

definition domain_inv :: "database \<Rightarrow> bool" where
  "domain_inv db =
     (lookup_table db ''public.kinematic_chains'' = Some kinematic_chains
      \<and> lookup_table db ''public.ik_solver_jobs'' = Some ik_solver_jobs
      \<and> rows_ok kinematic_chains (contents db ''public.kinematic_chains'')
      \<and> rows_ok ik_solver_jobs (contents db ''public.ik_solver_jobs''))"

text \<open>A database that has the tables of another and, in each table, some of its rows.\<close>

definition shrunk :: "database \<Rightarrow> database \<Rightarrow> bool" where
  "shrunk db' db = (catalog db' = catalog db \<and> (\<forall>m. set (contents db' m) \<subseteq> set (contents db m)))"

text \<open>Three statements: a chain, a job that names no solver, a job with an unknown solver.\<close>

definition example_dml :: "dml list" where
  "example_dml =
     [Insert \<lparr>fresh_uuid = ''c1'', current_time = 1\<rparr> ''public.kinematic_chains''
        [(''name'', VText ''arm''), (''joint_count'', VInt 7), (''dof'', VInt 7)],
      Insert \<lparr>fresh_uuid = ''j1'', current_time = 2\<rparr> ''public.ik_solver_jobs''
        [(''chain_id'', VUuid ''c1''), (''target_position'', VJson ''[0.5,0.3,0.2]'')],
      Insert \<lparr>fresh_uuid = ''j2'', current_time = 3\<rparr> ''public.ik_solver_jobs''
        [(''chain_id'', VUuid ''c1''), (''solver_type'', VText ''newton''),
         (''target_position'', VJson ''[0.5,0.3,0.2]'')]]"

definition example_job :: row where
  "example_job =
     [(''id'', VUuid ''j1''), (''user_id'', Null), (''chain_id'', VUuid ''c1''),
      (''solver_type'', VText ''ccd''), (''target_position'', VJson ''[0.5,0.3,0.2]''),
      (''target_orientation'', Null), (''status'', VText ''pending''), (''iterations'', Null),
      (''residual_error'', Null), (''solution'', Null), (''solve_time_ms'', Null),
      (''created_at'', VTime 2)]"

definition example_chain :: row where
  "example_chain =
     [(''id'', VUuid ''c1''), (''user_id'', Null), (''name'', VText ''arm''),
      (''chain_type'', VText ''serial''), (''joint_count'', VInt 7), (''dof'', VInt 7),
      (''joints'', VJson ''[]''), (''end_effector_count'', VInt 1),
      (''workspace_volume'', Null), (''created_at'', VTime 1)]"

section \<open>The IK solver's iteration\<close>





















section \<open>Properties of the kinematics store\<close>

lemma reset_initial: "reset s = initial_state"
  by (simp add: reset_def set_state_def initial_state_def)

text \<open>
  C9: from every state reached by a sequence of setChain, setResult, setLoading and reset
  calls, reset gives exactly the initial state (chain human\_arm, result null, loading
  false), and resetting twice is the same as resetting once.
\<close>

theorem reset_restores_initial:
  "reset (run_store acts) = \<lparr>chain = ''human_arm'', result = None, loading = False\<rparr>
   \<and> reset (reset s) = reset s
   \<and> run_store (acts @ [Reset]) = initial_state
   \<and> initial_state = \<lparr>chain = ''human_arm'', result = None, loading = False\<rparr>"
  by (simp add: reset_initial run_store_def) (simp add: initial_state_def)

text \<open>
  C10: each setter writes its own field and leaves the two others as they were:
  setChain sets chain, setResult sets result, setLoading sets loading.
\<close>

theorem setters_frame:
  "chain (setChain c s) = c \<and> result (setChain c s) = result s
     \<and> loading (setChain c s) = loading s
   \<and> result (setResult r s) = r \<and> chain (setResult r s) = chain s
     \<and> loading (setResult r s) = loading s
   \<and> loading (setLoading l s) = l \<and> chain (setLoading l s) = chain s
     \<and> result (setLoading l s) = result s"
  by (simp add: setChain_def setResult_def setLoading_def set_state_def no_update_def)

section \<open>Properties of the API client\<close>

text \<open>
  C2: every operation of the client sends the method and the path of its row of the spec's
  endpoint table: POST for solve-ik, solve-fk, compress-intent and optimize-trajectory,
  GET for chains, stats and /health.
\<close>

theorem api_endpoints:
  "map (wire env) [solveIk b1, solveFk b2, compressIntent b3, optimizeTrajectory b4,
                   chains, stats, health] = endpoint_table
   \<and> wire env (solveIk b1) = (''POST'', ''/api/v1/kinematics/solve-ik'')
   \<and> wire env (solveFk b2) = (''POST'', ''/api/v1/kinematics/solve-fk'')
   \<and> wire env (compressIntent b3) = (''POST'', ''/api/v1/kinematics/compress-intent'')
   \<and> wire env (optimizeTrajectory b4) = (''POST'', ''/api/v1/kinematics/optimize-trajectory'')
   \<and> wire env chains = (''GET'', ''/api/v1/kinematics/chains'')
   \<and> wire env stats = (''GET'', ''/api/v1/kinematics/stats'')
   \<and> wire env health = (''GET'', ''/health'')"
  by (simp add: wire_def endpoint_table_def http_method_def fetch_init_def post_def)

text \<open>
  C8 as the spec states it, refuted: a 204 response is ok and has no JSON body;
  \<open>res.json()\<close> rejects, and so does request: it does not resolve.
\<close>

theorem request_outcome_counterexample:
  "ok no_content_response
   \<and> request (answering no_content_response) ''/health'' None = Inl SyntaxError"
  by (simp add: request_def answering_def no_content_response_def ok_def res_json_def)

text \<open>
  C8, amended: when the response's status is not ok, request throws an Error with the
  message "API error: " followed by the status and returns no body; when it is ok, request
  returns what \<open>res.json()\<close> gives: it resolves with the parsed JSON body when the body
  is JSON, and rejects with the parser's SyntaxError when it is not.
\<close>

theorem request_outcome:
  assumes "fetch env (API_URL (NEXT_PUBLIC_API_URL env) @ path) (fetch_init options) = Inr res"
  shows "(\<not> ok res \<longrightarrow>
            request env path options = Inl (Error (''API error: '' @ show_nat (status res)))
            \<and> (\<forall>j. request env path options \<noteq> Inr j))
         \<and> (ok res \<longrightarrow> request env path options = res_json res)
         \<and> (ok res \<and> body_json res = Some parsed \<longrightarrow> request env path options = Inr parsed)
         \<and> (ok res \<and> body_json res = None \<longrightarrow> request env path options = Inl SyntaxError)"
  using assms by (simp add: request_def res_json_def)

theorem request_outcome_witness:
  "request (answering bad_request_response) ''/api/v1/kinematics/solve-ik'' None
     = Inl (Error ''API error: 400'')
   \<and> request (answering chains_response) ''/api/v1/kinematics/chains'' None = Inr (JArr [])
   \<and> request (answering no_content_response) ''/api/v1/kinematics/stats'' None
     = Inl SyntaxError"
  using request_outcome [of "answering bad_request_response" "''/api/v1/kinematics/solve-ik''"
           None bad_request_response]
        request_outcome [of "answering chains_response" "''/api/v1/kinematics/chains''"
           None chains_response "JArr []"]
        request_outcome [of "answering no_content_response" "''/api/v1/kinematics/stats''"
           None no_content_response]
  by (simp add: answering_def bad_request_response_def chains_response_def
        no_content_response_def ok_def res_json_def show_nat.simps digit_char_def)

section \<open>Properties of the console page's generated request\<close>

lemma generated_timestamps:
  "map timestamp_ms (map generated_sample [0..<n]) = map (\<lambda>i. 10 * int i) [0..<n]"
  by (simp add: generated_sample_def)

lemma sorted_wrt_timestamps: "sorted_wrt (<) (map (\<lambda>i. 10 * int i) [0..<n])"
  by (simp add: sorted_wrt_map sorted_wrt_iff_nth_less)

text \<open>
  C6: the request the intent tab generates has 100 samples (so it is not empty), the
  timestamp of sample i is 10 i, the timestamps are strictly increasing (hence
  non-decreasing), and sample\_rate\_hz is 100, which is positive: the spec's validity
  check accepts it.
\<close>

theorem generated_request_valid:
  "length (samples generated_request) = 100
   \<and> samples generated_request \<noteq> []
   \<and> map timestamp_ms (samples generated_request) = map (\<lambda>i. 10 * int i) [0..<100]
   \<and> sorted_wrt (<) (map timestamp_ms (samples generated_request))
   \<and> sorted (map timestamp_ms (samples generated_request))
   \<and> sample_rate_hz generated_request = Some 100
   \<and> compress_intent_accepts generated_request
   \<and> fst (intent_click env) = API_URL (NEXT_PUBLIC_API_URL env) @ ''/api/v1/kinematics/compress-intent''
   \<and> init_body (snd (intent_click env))
       = Some (JSON_stringify env (compress_intent_json generated_request))"
proof -
  have ts: "map timestamp_ms (samples generated_request) = map (\<lambda>i. 10 * int i) [0..<100]"
    using generated_timestamps [of 100]
    by (simp add: generated_request_def generated_samples_def)
  have strict: "sorted_wrt (<) (map timestamp_ms (samples generated_request))"
    unfolding ts by (rule sorted_wrt_timestamps)
  have weak: "sorted (map timestamp_ms (samples generated_request))"
    using strict by (rule strict_sorted_imp_sorted)
  have len: "length (samples generated_request) = 100"
    by (simp add: generated_request_def generated_samples_def)
  have ne: "samples generated_request \<noteq> []"
    using len by auto
  have rate: "sample_rate_hz generated_request = Some 100"
    by (simp add: generated_request_def)
  have acc: "compress_intent_accepts generated_request"
    using ne weak rate by (simp add: compress_intent_accepts_def)
  have call: "fst (intent_click env) = API_URL (NEXT_PUBLIC_API_URL env) @ ''/api/v1/kinematics/compress-intent''
      \<and> init_body (snd (intent_click env))
          = Some (JSON_stringify env (compress_intent_json generated_request))"
    by (simp add: intent_click_def doFetch_call_def)
  from len ne ts strict weak rate acc call show ?thesis by blast
qed

section \<open>Properties of the preset registry\<close>

text \<open>
  C3: the registry holds exactly five chains, human\_arm (7 DOF), human\_leg (6 DOF),
  robotic\_arm\_6dof (6 DOF), delta\_robot (3 DOF) and scara (4 DOF), and GET chains
  returns them in this order; the landing page lists the same five, in the same order,
  with the same DOF.
\<close>

theorem preset_registry_chains:
  "map (\<lambda>p. (preset_id p, dof p)) get_chains
     = [(''human_arm'', 7), (''human_leg'', 6), (''robotic_arm_6dof'', 6),
        (''delta_robot'', 3), (''scara'', 4)]
   \<and> length preset_registry = 5
   \<and> distinct (map preset_id preset_registry)
   \<and> get_chains = preset_registry
   \<and> map chain_label get_chains = landing_chains"
  by (simp add: get_chains_def preset_registry_def chain_label_def landing_chains_def
        show_nat.simps digit_char_def)

section \<open>Properties of the 8-byte intent record\<close>

lemma tag_class_tag: "tag_class (class_tag c) = Some c"
  by (cases c) (simp_all add: tag_class_def)

lemma le_bytes_round_trip:
  "from_le_bytes (ucast w) (ucast (drop_bit 8 w)) (ucast (drop_bit 16 w)) (ucast (drop_bit 24 w)) = w"
  unfolding from_le_bytes_def
proof (rule bit_word_eqI)
  fix n :: nat
  assume "n < LENGTH(32)"
  then have n: "n < 32" by simp
  consider "n < 8" | "8 \<le> n" "n < 16" | "16 \<le> n" "n < 24" | "24 \<le> n" "n < 32"
    using n by linarith
  then show "bit (ucast (ucast w :: 8 word) OR push_bit 8 (ucast (ucast (drop_bit 8 w) :: 8 word))
                  OR push_bit 16 (ucast (ucast (drop_bit 16 w) :: 8 word))
                  OR push_bit 24 (ucast (ucast (drop_bit 24 w) :: 8 word)) :: 32 word) n = bit w n"
    by cases (auto simp add: bit_simps)
qed

lemma round_int_close: "\<bar>real_of_int (round_int rnd y) - y\<bar> \<le> 1"
  by (cases rnd) (simp_all, linarith+)

lemma round_int_bound:
  assumes "\<bar>y\<bar> \<le> 127"
  shows "- 127 \<le> round_int rnd y \<and> round_int rnd y \<le> 127"
  using assms by (cases rnd) (simp_all, linarith+)

lemma sint_i8: "- 128 \<le> k \<Longrightarrow> k < 128 \<Longrightarrow> sint (word_of_int k :: 8 word) = k"
  by (simp add: sint_sbintrunc' signed_take_bit_int_eq_self)

lemma quantize_close:
  assumes "\<bar>x\<bar> \<le> 1"
  shows "\<bar>dequantize (quantize rnd x) - x\<bar> \<le> 1 / 127"
proof -
  let ?k = "round_int rnd (x * 127)"
  have "\<bar>x * 127\<bar> \<le> 127" using assms by (simp add: abs_mult)
  then have b: "- 127 \<le> ?k \<and> ?k \<le> 127" by (rule round_int_bound)
  then have "sint (word_of_int ?k :: 8 word) = ?k" by (simp add: sint_i8)
  then have d: "dequantize (quantize rnd x) = real_of_int ?k / 127"
    by (simp add: dequantize_def quantize_def)
  have "\<bar>real_of_int ?k - x * 127\<bar> \<le> 1" by (rule round_int_close)
  then have "\<bar>real_of_int ?k / 127 - x\<bar> \<le> 1 / 127"
    by (simp add: field_simps abs_le_iff)
  then show ?thesis by (simp add: d)
qed

lemma component_bound:
  fixes x y z :: real
  assumes "x\<^sup>2 + y\<^sup>2 + z\<^sup>2 \<le> 1"
  shows "\<bar>x\<bar> \<le> 1"
proof -
  have "x\<^sup>2 \<le> 1" using assms zero_le_power2 [of y] zero_le_power2 [of z] by linarith
  then show ?thesis by (simp add: abs_square_le_1)
qed

lemma example_bytes:
  "encode_intent ToNearest example_intent = [4, 76, 154, 0, 205, 204, 204, 61]"
  by (simp add: encode_intent_def example_intent_def quantize_def to_le_bytes_def)

lemma example_decoded:
  "decode_intent [4, 76, 154, 0, 205, 204, 204, 61]
     = Some \<lparr>intent_class = Reach, intent_direction = (76 / 127, - 102 / 127, 0),
             intent_magnitude = 0x3DCCCCCD\<rparr>"
  by (simp add: tag_class_def dequantize_def from_le_bytes_def)

text \<open>
  C5: an intent record whose direction has length at most 1 (a unit direction, or the zero
  direction of a window without displacement) packs into 8 bytes, and decoding them gives
  the same class, the same float32 magnitude, and a direction within 1/127 of the
  original in each component, whichever of the two roundings the packing uses.
\<close>

theorem intent_round_trip:
  assumes "norm_sq (intent_direction r) \<le> 1"
  shows "length (encode_intent rnd r) = 8
         \<and> (case decode_intent (encode_intent rnd r) of
              None \<Rightarrow> False
            | Some r' \<Rightarrow> intent_class r' = intent_class r
                \<and> intent_magnitude r' = intent_magnitude r
                \<and> close_to (1 / 127) (intent_direction r') (intent_direction r))"
proof -
  obtain x y z where d: "intent_direction r = (x, y, z)"
    by (cases "intent_direction r") auto
  have sq: "x\<^sup>2 + y\<^sup>2 + z\<^sup>2 \<le> 1"
    using assms by (simp add: norm_sq_def d)
  have x: "\<bar>x\<bar> \<le> 1" using sq by (rule component_bound)
  have y: "\<bar>y\<bar> \<le> 1" using sq component_bound [of y x z] by (simp add: add.commute)
  have z: "\<bar>z\<bar> \<le> 1"
    using sq component_bound [of z x y] by (simp add: add.commute add.left_commute)
  show ?thesis
    using quantize_close [OF x, of rnd] quantize_close [OF y, of rnd] quantize_close [OF z, of rnd]
    by (simp add: encode_intent_def d to_le_bytes_def tag_class_tag le_bytes_round_trip
          close_to_def)
qed

theorem intent_round_trip_witness:
  "norm_sq (intent_direction example_intent) \<le> 1
   \<and> (case decode_intent (encode_intent ToNearest example_intent) of
        None \<Rightarrow> False
      | Some r' \<Rightarrow> intent_class r' = Reach
          \<and> intent_magnitude r' = 0x3DCCCCCD
          \<and> close_to (1 / 127) (intent_direction r') (3 / 5, - 4 / 5, 0))"
proof -
  have h: "norm_sq (intent_direction example_intent) \<le> 1"
    by (simp add: norm_sq_def example_intent_def power2_eq_square)
  from intent_round_trip [OF h, of ToNearest] h show ?thesis
    by (simp add: example_intent_def split: option.splits)
qed

section \<open>Properties of the compression ratio\<close>

lemma length_encode_intent: "length (encode_intent rnd r) = 8"
  by (cases "intent_direction r") (simp add: encode_intent_def to_le_bytes_def)

text \<open>
  C4: every accepted compress-intent request is answered with a response whose
  compression\_ratio is the original byte size of the samples, 32 bytes each, divided by
  8: for a window of n samples 32 n / 8 = 4 n, and 8 for 2 samples.
\<close>

theorem compression_ratio_formula:
  "(compress_intent_accepts b \<longrightarrow> fst (compress_intent c b) = 200)
   \<and> (compress_intent c b = (200, CompressResult resp) \<longrightarrow>
        original_samples resp = length (samples b)
        \<and> compressed_bytes resp = 8
        \<and> original_sample_byte_size (samples b) = 32 * length (samples b)
        \<and> compression_ratio resp = real (original_sample_byte_size (samples b)) / 8
        \<and> compression_ratio resp = real (32 * original_samples resp) / 8
        \<and> compression_ratio resp = 4 * real (original_samples resp)
        \<and> (original_samples resp = 2 \<longrightarrow> compression_ratio resp = 8))"
  by (auto simp add: compress_intent_def original_sample_byte_size_def sample_byte_size_def
        length_encode_intent split: if_splits)

theorem compression_ratio_formula_witness:
  "compress_intent_accepts readme_request
   \<and> compress_intent example_compressor readme_request
       = (200, CompressResult
            \<lparr>intent_id = ''i1'', compressed_bytes = 8, original_samples = 2,
             compression_ratio = 8, intent_type = Reach, direction = (1, 0, 0),
             magnitude = 0x3DCCCCCD, elapsed_us = 12\<rparr>)"
proof -
  have a: "compress_intent_accepts readme_request"
    by (simp add: compress_intent_accepts_def readme_request_def)
  have r: "compress_intent example_compressor readme_request
       = (200, CompressResult
            \<lparr>intent_id = ''i1'', compressed_bytes = 8, original_samples = 2,
             compression_ratio = 8, intent_type = Reach, direction = (1, 0, 0),
             magnitude = 0x3DCCCCCD, elapsed_us = 12\<rparr>)"
    using a
    by (simp add: compress_intent_def example_compressor_def reach_x_def readme_request_def
          original_sample_byte_size_def sample_byte_size_def length_encode_intent)
  from compression_ratio_formula [where b = readme_request and c = example_compressor
         and resp = "\<lparr>intent_id = ''i1'', compressed_bytes = 8, original_samples = 2,
             compression_ratio = 8, intent_type = Reach, direction = (1, 0, 0),
             magnitude = 0x3DCCCCCD, elapsed_us = 12\<rparr>"] a r
  show ?thesis by simp
qed

section \<open>Properties of the domain tables\<close>

lemma migration_runs:
  "run_statements migration_006 (project_db users)
     = Inr \<lparr>catalog = [auth_users, kinematic_chains, ik_solver_jobs],
            indexes = [(''idx_kinematic_chains_user'', ''public.kinematic_chains'', ''user_id''),
                       (''idx_ik_solver_jobs_chain'', ''public.ik_solver_jobs'', ''chain_id''),
                       (''idx_ik_solver_jobs_user'', ''public.ik_solver_jobs'', ''user_id'')],
            contents = (\<lambda>n. [])(''auth.users'' := users)\<rparr>"
  by (simp add: migration_006_def project_db_def lookup_table_def auth_users_def
        kinematic_chains_def ik_solver_jobs_def foreign_tables_def column_names_def col_def
        fun_eq_iff)

lemma migrated_eq:
  "migrated users
     = \<lparr>catalog = [auth_users, kinematic_chains, ik_solver_jobs],
        indexes = [(''idx_kinematic_chains_user'', ''public.kinematic_chains'', ''user_id''),
                   (''idx_ik_solver_jobs_chain'', ''public.ik_solver_jobs'', ''chain_id''),
                   (''idx_ik_solver_jobs_user'', ''public.ik_solver_jobs'', ''user_id'')],
        contents = (\<lambda>n. [])(''auth.users'' := users)\<rparr>"
  by (simp add: migrated_def migration_runs)

lemma table_names:
  "table_name auth_users = ''auth.users''"
  "table_name kinematic_chains = ''public.kinematic_chains''"
  "table_name ik_solver_jobs = ''public.ik_solver_jobs''"
  by (simp_all add: auth_users_def kinematic_chains_def ik_solver_jobs_def)

lemma migrated_lookup:
  "lookup_table (migrated users) ''public.kinematic_chains'' = Some kinematic_chains"
  "lookup_table (migrated users) ''public.ik_solver_jobs'' = Some ik_solver_jobs"
  by (simp_all add: migrated_eq lookup_table_def table_names)

lemma migrated_inv: "domain_inv (migrated users)"
  by (simp add: domain_inv_def migrated_lookup rows_ok_def) (simp add: migrated_eq)

lemma rows_ok_append: "rows_ok t (xs @ ys) = (rows_ok t xs \<and> rows_ok t ys)"
  by (simp add: rows_ok_def)

lemma admit_row_ok: "admit db t others r = None \<Longrightarrow> row_violation (table_columns t) r = None"
  by (simp add: admit_def split: option.splits if_splits)

lemma insert_row_effect:
  assumes "insert_row g n given db = Inr db'"
  shows "catalog db' = catalog db
         \<and> (\<forall>m. m \<noteq> n \<longrightarrow> contents db' m = contents db m)
         \<and> (\<exists>t r. lookup_table db n = Some t \<and> row_violation (table_columns t) r = None
                \<and> contents db' n = contents db n @ [r])"
  using assms
  by (auto simp add: insert_row_def split: option.splits dest: admit_row_ok)

lemma update_each_ok:
  "update_each db t key given kept rs = Inr out \<Longrightarrow> rows_ok t kept \<Longrightarrow> rows_ok t rs
     \<Longrightarrow> rows_ok t out"
proof (induction rs arbitrary: kept)
  case Nil
  then show ?case by simp
next
  case (Cons r rs)
  show ?case
  proof (cases "cell r ''id'' = key")
    case True
    with Cons.prems(1) obtain
      a: "admit db t (kept @ rs) (assign given r) = None" and
      u: "update_each db t key given (kept @ [assign given r]) rs = Inr out"
      by (auto split: option.splits)
    have "rows_ok t (kept @ [assign given r])"
      using Cons.prems(2) admit_row_ok [OF a] by (simp add: rows_ok_def)
    moreover have "rows_ok t rs" using Cons.prems(3) by (simp add: rows_ok_def)
    ultimately show ?thesis using Cons.IH [OF u] by blast
  next
    case False
    with Cons.prems(1) have u: "update_each db t key given (kept @ [r]) rs = Inr out"
      by simp
    have "rows_ok t (kept @ [r])" "rows_ok t rs"
      using Cons.prems(2,3) by (simp_all add: rows_ok_def)
    then show ?thesis using Cons.IH [OF u] by blast
  qed
qed

lemma update_row_effect:
  assumes "update_row n key given db = Inr db'"
  shows "catalog db' = catalog db
         \<and> (\<forall>m. m \<noteq> n \<longrightarrow> contents db' m = contents db m)
         \<and> (\<exists>t. lookup_table db n = Some t
                \<and> (rows_ok t (contents db n) \<longrightarrow> rows_ok t (contents db' n)))"
proof -
  from assms obtain t rows where
    t: "lookup_table db n = Some t" and
    u: "update_each db t key given [] (contents db n) = Inr rows" and
    d: "db' = db\<lparr>contents := (contents db)(n := rows)\<rparr>"
    by (auto simp add: update_row_def split: option.splits sum.splits)
  have "rows_ok t (contents db n) \<longrightarrow> rows_ok t rows"
    using update_each_ok [OF u] by (simp add: rows_ok_def)
  with t d show ?thesis by simp
qed

lemma shrunk_refl: "shrunk db db"
  by (simp add: shrunk_def)

lemma shrunk_trans: "shrunk c b \<Longrightarrow> shrunk b a \<Longrightarrow> shrunk c a"
  by (auto simp add: shrunk_def)

lemma fold_shrunk:
  "(\<And>x d. x \<in> set xs \<Longrightarrow> shrunk (f x d) d) \<Longrightarrow> shrunk (fold f xs db) db"
proof (induction xs arbitrary: db)
  case Nil
  then show ?case by (simp add: shrunk_refl)
next
  case (Cons x xs)
  have "shrunk (fold f xs (f x db)) (f x db)" using Cons by simp
  moreover have "shrunk (f x db) db" using Cons.prems by simp
  ultimately show ?case by (simp add: shrunk_trans)
qed

lemma delete_where_shrunk: "shrunk (delete_where depth n c vals db) db"
proof (induction depth arbitrary: n c vals db)
  case 0
  then show ?case by (simp add: shrunk_refl)
next
  case (Suc depth)
  let ?db1 = "db\<lparr>contents := (contents db)(n := filter (\<lambda>r. cell r c \<notin> set vals) (contents db n))\<rparr>"
  have first: "shrunk ?db1 db" by (auto simp add: shrunk_def)
  have "shrunk (fold (\<lambda>(tn, cn, rc). delete_where depth tn cn
              (map (\<lambda>r. cell r rc) (filter (\<lambda>r. cell r c \<in> set vals) (contents db n))))
          (referrers db n) ?db1) ?db1"
    by (rule fold_shrunk) (auto simp add: Suc.IH)
  then show ?case using first by (simp add: shrunk_trans)
qed

lemma shrunk_inv:
  assumes "shrunk db' db" and "domain_inv db"
  shows "domain_inv db'"
proof -
  have sub: "\<And>t m. rows_ok t (contents db m) \<Longrightarrow> rows_ok t (contents db' m)"
    using assms(1) by (auto simp add: shrunk_def rows_ok_def list_all_iff)
  have "lookup_table db' = lookup_table db"
    using assms(1) by (simp add: shrunk_def lookup_table_def fun_eq_iff)
  then show ?thesis using assms(2) sub by (simp add: domain_inv_def)
qed

lemma exec_dml_inv:
  assumes "exec_dml s db = Inr db'" and "domain_inv db"
  shows "domain_inv db'"
proof (cases s)
  case (Insert g n given)
  with assms(1) have "insert_row g n given db = Inr db'" by simp
  from insert_row_effect [OF this] obtain t r where
    c: "catalog db' = catalog db" and
    o: "\<forall>m. m \<noteq> n \<longrightarrow> contents db' m = contents db m" and
    t: "lookup_table db n = Some t" and
    r: "row_violation (table_columns t) r = None" and
    n: "contents db' n = contents db n @ [r]"
    by blast
  have l: "lookup_table db' = lookup_table db"
    using c by (simp add: lookup_table_def fun_eq_iff)
  have "rows_ok kinematic_chains (contents db' ''public.kinematic_chains'')"
    using assms(2) o t r n by (cases "n = ''public.kinematic_chains''")
      (auto simp add: domain_inv_def rows_ok_def)
  moreover have "rows_ok ik_solver_jobs (contents db' ''public.ik_solver_jobs'')"
    using assms(2) o t r n by (cases "n = ''public.ik_solver_jobs''")
      (auto simp add: domain_inv_def rows_ok_def)
  ultimately show ?thesis using assms(2) l by (simp add: domain_inv_def)
next
  case (Update n key given)
  with assms(1) have "update_row n key given db = Inr db'" by simp
  from update_row_effect [OF this] obtain t where
    c: "catalog db' = catalog db" and
    o: "\<forall>m. m \<noteq> n \<longrightarrow> contents db' m = contents db m" and
    t: "lookup_table db n = Some t" and
    k: "rows_ok t (contents db n) \<longrightarrow> rows_ok t (contents db' n)"
    by blast
  have l: "lookup_table db' = lookup_table db"
    using c by (simp add: lookup_table_def fun_eq_iff)
  have "rows_ok kinematic_chains (contents db' ''public.kinematic_chains'')"
    using assms(2) o t k by (cases "n = ''public.kinematic_chains''")
      (auto simp add: domain_inv_def)
  moreover have "rows_ok ik_solver_jobs (contents db' ''public.ik_solver_jobs'')"
    using assms(2) o t k by (cases "n = ''public.ik_solver_jobs''")
      (auto simp add: domain_inv_def)
  ultimately show ?thesis using assms(2) l by (simp add: domain_inv_def)
next
  case (Delete n key)
  with assms(1) have "db' = delete_where (Suc (length (catalog db))) n ''id'' [key] db"
    by (auto simp add: delete_row_def simp del: delete_where.simps split: option.splits)
  then have "shrunk db' db" by (simp only: delete_where_shrunk)
  then show ?thesis using assms(2) by (rule shrunk_inv)
qed

lemma apply_dml_inv: "domain_inv db \<Longrightarrow> domain_inv (apply_dml db s)"
  by (auto simp add: apply_dml_def split: sum.splits dest: exec_dml_inv)

lemma run_dml_inv: "domain_inv db \<Longrightarrow> domain_inv (run_dml ss db)"
  unfolding run_dml_def by (induction ss arbitrary: db) (simp_all add: apply_dml_inv)

lemma row_violation_column:
  "row_violation cs r = None \<Longrightarrow> c \<in> set cs \<Longrightarrow> column_violation c (cell r (col_name c)) = None"
  by (induction cs) (auto split: option.splits)

lemma checked_not_null:
  assumes "column_violation c v = None" and "col_not_null c" and "col_check_in c = Some allowed"
  shows "v \<in> set (map VText allowed)"
  using assms by (auto simp add: column_violation_def split: if_splits)

lemma solver_type_checked:
  assumes "rows_ok ik_solver_jobs rs" and "r \<in> set rs"
  shows "cell r ''solver_type'' \<in> set (map VText solver_types)"
proof -
  let ?c = "(col ''solver_type'' Text)\<lparr>col_not_null := True,
            col_default := Some (Literal (VText ''ccd'')),
            col_check_in := Some [''ccd'', ''fabrik'', ''jacobian'', ''analytical'', ''hybrid'']\<rparr>"
  have "row_violation (table_columns ik_solver_jobs) r = None"
    using assms by (simp add: rows_ok_def list_all_iff)
  moreover have "?c \<in> set (table_columns ik_solver_jobs)"
    by (simp add: ik_solver_jobs_def)
  ultimately have "column_violation ?c (cell r (col_name ?c)) = None"
    by (rule row_violation_column)
  then have "cell r (col_name ?c) \<in> set (map VText solver_types)"
    unfolding solver_types_def by (rule checked_not_null) (simp_all add: col_def)
  then show ?thesis by (simp add: col_def)
qed

lemma chain_type_checked:
  assumes "rows_ok kinematic_chains rs" and "r \<in> set rs"
  shows "cell r ''chain_type'' \<in> set (map VText chain_types)"
proof -
  let ?c = "(col ''chain_type'' Text)\<lparr>col_not_null := True,
            col_default := Some (Literal (VText ''serial'')),
            col_check_in := Some [''serial'', ''parallel'', ''tree'', ''closed_loop'']\<rparr>"
  have "row_violation (table_columns kinematic_chains) r = None"
    using assms by (simp add: rows_ok_def list_all_iff)
  moreover have "?c \<in> set (table_columns kinematic_chains)"
    by (simp add: kinematic_chains_def)
  ultimately have "column_violation ?c (cell r (col_name ?c)) = None"
    by (rule row_violation_column)
  then have "cell r (col_name ?c) \<in> set (map VText chain_types)"
    unfolding chain_types_def by (rule checked_not_null) (simp_all add: col_def)
  then show ?thesis by (simp add: col_def)
qed

lemma default_solver_type:
  assumes "''solver_type'' \<notin> set (map fst given)"
  shows "cell (build_row g ik_solver_jobs given) ''solver_type'' = VText ''ccd''"
proof -
  have "map_of given ''solver_type'' = None"
    using assms by (simp add: map_of_eq_None_iff)
  then show ?thesis
    by (simp add: build_row_def ik_solver_jobs_def cell_def fill_def col_def)
qed

lemma default_chain_type:
  assumes "''chain_type'' \<notin> set (map fst given)"
  shows "cell (build_row g kinematic_chains given) ''chain_type'' = VText ''serial''"
proof -
  have "map_of given ''chain_type'' = None"
    using assms by (simp add: map_of_eq_None_iff)
  then show ?thesis
    by (simp add: build_row_def kinematic_chains_def cell_def fill_def col_def)
qed

text \<open>
  C7: the migration, run on a database that has neither table, defines kinematic\_chains
  and ik\_solver\_jobs; whatever inserts, updates and deletes follow, every row of
  ik\_solver\_jobs has a solver\_type among ccd, fabrik, jacobian, analytical and hybrid, and
  every row of kinematic\_chains a chain\_type among serial, parallel, tree and
  closed\_loop; an insert that gives no solver\_type stores ccd, one that gives no
  chain\_type stores serial.
\<close>

theorem domain_tables_checked:
  "run_statements migration_006 (project_db users) = Inr (migrated users)
   \<and> lookup_table (run_dml ss (migrated users)) ''public.kinematic_chains'' = Some kinematic_chains
   \<and> lookup_table (run_dml ss (migrated users)) ''public.ik_solver_jobs'' = Some ik_solver_jobs
   \<and> (\<forall>r \<in> set (contents (run_dml ss (migrated users)) ''public.ik_solver_jobs'').
        cell r ''solver_type'' \<in> set (map VText solver_types))
   \<and> (\<forall>r \<in> set (contents (run_dml ss (migrated users)) ''public.kinematic_chains'').
        cell r ''chain_type'' \<in> set (map VText chain_types))
   \<and> (''solver_type'' \<notin> set (map fst given)
        \<longrightarrow> cell (build_row g ik_solver_jobs given) ''solver_type'' = VText ''ccd'')
   \<and> (''chain_type'' \<notin> set (map fst given)
        \<longrightarrow> cell (build_row g kinematic_chains given) ''chain_type'' = VText ''serial'')"
proof -
  have inv: "domain_inv (run_dml ss (migrated users))"
    by (rule run_dml_inv) (rule migrated_inv)
  have m: "run_statements migration_006 (project_db users) = Inr (migrated users)"
    by (simp add: migrated_def migration_runs)
  have j: "\<forall>r \<in> set (contents (run_dml ss (migrated users)) ''public.ik_solver_jobs'').
        cell r ''solver_type'' \<in> set (map VText solver_types)"
    using inv solver_type_checked unfolding domain_inv_def by blast
  have c: "\<forall>r \<in> set (contents (run_dml ss (migrated users)) ''public.kinematic_chains'').
        cell r ''chain_type'' \<in> set (map VText chain_types)"
    using inv chain_type_checked unfolding domain_inv_def by blast
  from m inv j c default_solver_type default_chain_type show ?thesis
    unfolding domain_inv_def by blast
qed

lemma example_jobs:
  "contents (run_dml example_dml (migrated [])) ''public.ik_solver_jobs'' = [example_job]"
  by (simp add: example_dml_def run_dml_def apply_dml_def migrated_eq insert_row_def
        lookup_table_def table_names column_names_def admit_def key_of_def
        reference_violation_def build_row_def fill_def cell_def column_violation_def
        example_job_def kinematic_chains_def ik_solver_jobs_def auth_users_def col_def)

lemma example_chains:
  "contents (run_dml example_dml (migrated [])) ''public.kinematic_chains'' = [example_chain]"
  by (simp add: example_dml_def run_dml_def apply_dml_def migrated_eq insert_row_def
        lookup_table_def table_names column_names_def admit_def key_of_def
        reference_violation_def build_row_def fill_def cell_def column_violation_def
        example_chain_def kinematic_chains_def ik_solver_jobs_def auth_users_def col_def)

theorem domain_tables_checked_witness:
  "example_job \<in> set (contents (run_dml example_dml (migrated [])) ''public.ik_solver_jobs'')
   \<and> cell example_job ''solver_type'' \<in> set (map VText solver_types)
   \<and> cell example_job ''solver_type'' = VText ''ccd''
   \<and> example_chain \<in> set (contents (run_dml example_dml (migrated [])) ''public.kinematic_chains'')
   \<and> cell example_chain ''chain_type'' \<in> set (map VText chain_types)
   \<and> ''solver_type'' \<notin> set (map fst [(''target_position'', VJson ''[0,0,1]'')])
   \<and> cell (build_row \<lparr>fresh_uuid = ''j3'', current_time = 4\<rparr> ik_solver_jobs [(''target_position'', VJson ''[0,0,1]'')]) ''solver_type''
       = VText ''ccd''
   \<and> ''chain_type'' \<notin> set (map fst [(''name'', VText ''leg'')])
   \<and> cell (build_row \<lparr>fresh_uuid = ''j3'', current_time = 4\<rparr> kinematic_chains [(''name'', VText ''leg'')]) ''chain_type''
       = VText ''serial''"
proof -
  have j: "example_job \<in> set (contents (run_dml example_dml (migrated [])) ''public.ik_solver_jobs'')"
    by (simp add: example_jobs)
  have c: "example_chain \<in> set (contents (run_dml example_dml (migrated [])) ''public.kinematic_chains'')"
    by (simp add: example_chains)
  have v: "cell example_job ''solver_type'' = VText ''ccd''"
    by (simp add: example_job_def cell_def)
  have a: "''solver_type'' \<notin> set (map fst [(''target_position'', VJson ''[0,0,1]'')])"
    by simp
  have b: "''chain_type'' \<notin> set (map fst [(''name'', VText ''leg'')])"
    by simp
  from domain_tables_checked [of "[]" example_dml "[(''target_position'', VJson ''[0,0,1]'')]"
          "\<lparr>fresh_uuid = ''j3'', current_time = 4\<rparr>"]
       domain_tables_checked [of "[]" example_dml "[(''name'', VText ''leg'')]"
          "\<lparr>fresh_uuid = ''j3'', current_time = 4\<rparr>"]
       j c v a b
  show ?thesis by blast
qed

section \<open>Properties of the IK solver's iteration\<close>











end
